theory Spec2Isabelle
  imports Complex_Main
begin

section \<open>PDF OCR-need analyzer: a shallow embedding\<close>

text \<open>
  The repository holds two Python files, \<^verbatim>\<open>PDF_Ocr_Analyzer.py\<close> (the batch tool)
  and \<^verbatim>\<open>TextQualityCheck.py\<close> (an earlier single-file variant). A function of the
  first file keeps its name; the same function of the second file carries the suffix
  \<open>_tqc\<close>.

  Conventions of the embedding:
  \<^item> a Python \<^verbatim>\<open>int\<close> is an \<open>int\<close>;
  \<^item> a Python \<^verbatim>\<open>float\<close> is a \<open>pyfloat\<close>: an exact real, or NaN. Rounding is not
    modelled (every arithmetic result is the exact real). NaN is kept because the
    program can produce it (numpy's \<^verbatim>\<open>0 / 0\<close>); infinities are left out, the program
    never produces one;
  \<^item> an exception caught by \<^verbatim>\<open>except Exception\<close> is a value \<open>Exception msg\<close>, and a
    function that can raise returns \<open>exn + 'a\<close> (\<open>Inl\<close> the exception);
  \<^item> the operating system and the libraries (os, glob, shutil, PyMuPDF, pdf2image,
    numpy, OpenCV, csv) are not code of the repository: they are the fields of a
    record \<open>world\<close>, so every theorem holds for whatever they return; the
    environment does not change during a run;
  \<^item> console output (\<^verbatim>\<open>print\<close>) is left out.
\<close>

subsection \<open>Python values\<close>

datatype exn = Exception string

datatype pyfloat = Finite real | NaN

text \<open>Comparisons of floats: every comparison with NaN is false.\<close>

fun py_lt :: "pyfloat \<Rightarrow> pyfloat \<Rightarrow> bool" where
  "py_lt (Finite a) (Finite b) = (a < b)"
| "py_lt _ _ = False"

fun py_le :: "pyfloat \<Rightarrow> pyfloat \<Rightarrow> bool" where
  "py_le (Finite a) (Finite b) = (a \<le> b)"
| "py_le _ _ = False"

definition py_gt :: "pyfloat \<Rightarrow> pyfloat \<Rightarrow> bool" where
  "py_gt a b = py_lt b a"

text \<open>An \<^verbatim>\<open>int\<close> compared or combined with a float is converted first.\<close>

definition py_float :: "int \<Rightarrow> pyfloat" where
  "py_float i = Finite (real_of_int i)"

text \<open>\<^verbatim>\<open>a / b\<close> on two ints: true division, ZeroDivisionError when \<open>b = 0\<close>.\<close>

definition py_truediv :: "int \<Rightarrow> int \<Rightarrow> exn + pyfloat" where
  "py_truediv a b =
     (if b = 0 then Inl (Exception ''division by zero'')
      else Inr (Finite (real_of_int a / real_of_int b)))"

text \<open>The builtin \<^verbatim>\<open>any\<close> on a list of booleans.\<close>

primrec py_any :: "bool list \<Rightarrow> bool" where
  "py_any [] = False"
| "py_any (x # xs) = (if x then True else py_any xs)"

text \<open>
  \<^verbatim>\<open>str.strip()\<close>: leading and trailing whitespace removed. A character is its code
  point below 256; the whitespace of \<^verbatim>\<open>str.isspace\<close> in that range is 9 to 13, 28 to
  32, 133 and 160.
\<close>

definition py_isspace :: "char \<Rightarrow> bool" where
  "py_isspace c =
     (let n = (of_char c :: nat)
      in (9 \<le> n \<and> n \<le> 13) \<or> (28 \<le> n \<and> n \<le> 32) \<or> n = 133 \<or> n = 160)"

definition py_strip :: "string \<Rightarrow> string" where
  "py_strip s = rev (dropWhile py_isspace (rev (dropWhile py_isspace s)))"

subsection \<open>The records of the data model\<close>

text \<open>The dict \<^verbatim>\<open>results\<close> of \<^verbatim>\<open>analyze_pdf_text_layer\<close>.\<close>

record text_analysis =
  has_text_layer :: bool
  total_pages :: int
  pages_with_text :: int
  total_text_length :: int
  text_pages_ratio :: pyfloat
  avg_text_per_page :: pyfloat

text \<open>The dict of \<^verbatim>\<open>get_file_metrics\<close>.\<close>

record file_metrics =
  file_size_mb :: pyfloat
  filename :: string

subsection \<open>The decision engine\<close>

text \<open>
  \<^verbatim>\<open>needs_ocr_analysis\<close> of PDF\_Ocr\_Analyzer.py, lines 193 to 233: the list
  \<^verbatim>\<open>rules\<close> of five booleans, then \<^verbatim>\<open>any(rules)\<close>.
\<close>

definition rules :: "text_analysis \<Rightarrow> pyfloat \<Rightarrow> file_metrics \<Rightarrow> bool list" where
  "rules text_analysis visual_analysis file_metrics =
     [\<not> has_text_layer text_analysis,
      py_lt (text_pages_ratio text_analysis) (Finite 0.3),
      py_lt visual_analysis (Finite 0.02),
      py_gt (file_size_mb file_metrics) (py_float 5)
        \<and> py_lt (avg_text_per_page text_analysis) (py_float 50),
      total_pages text_analysis > 10
        \<and> py_lt (text_pages_ratio text_analysis) (Finite 0.5)]"

definition needs_ocr_analysis :: "text_analysis \<Rightarrow> pyfloat \<Rightarrow> file_metrics \<Rightarrow> bool" where
  "needs_ocr_analysis text_analysis visual_analysis file_metrics =
     py_any (rules text_analysis visual_analysis file_metrics)"

text \<open>\<^verbatim>\<open>needs_ocr_analysis\<close> of TextQualityCheck.py, lines 113 to 141.\<close>

definition rules_tqc :: "text_analysis \<Rightarrow> pyfloat \<Rightarrow> file_metrics \<Rightarrow> bool list" where
  "rules_tqc text_analysis visual_analysis file_metrics =
     [\<not> has_text_layer text_analysis,
      py_lt (text_pages_ratio text_analysis) (Finite 0.3),
      py_lt visual_analysis (Finite 0.02),
      py_gt (file_size_mb file_metrics) (py_float 5)
        \<and> py_lt (avg_text_per_page text_analysis) (py_float 50),
      total_pages text_analysis > 10
        \<and> py_lt (text_pages_ratio text_analysis) (Finite 0.5)]"

definition needs_ocr_analysis_tqc :: "text_analysis \<Rightarrow> pyfloat \<Rightarrow> file_metrics \<Rightarrow> bool" where
  "needs_ocr_analysis_tqc text_analysis visual_analysis file_metrics =
     py_any (rules_tqc text_analysis visual_analysis file_metrics)"

subsection \<open>Floats: minimum and mean\<close>

text \<open>The builtin \<^verbatim>\<open>min(a, b)\<close>: \<open>b\<close> when \<open>b < a\<close>, else \<open>a\<close> (so a NaN \<open>a\<close> stays).\<close>

definition py_min :: "pyfloat \<Rightarrow> pyfloat \<Rightarrow> pyfloat" where
  "py_min a b = (if py_lt b a then b else a)"

fun py_add :: "pyfloat \<Rightarrow> pyfloat \<Rightarrow> pyfloat" where
  "py_add (Finite a) (Finite b) = Finite (a + b)"
| "py_add _ _ = NaN"

text \<open>\<^verbatim>\<open>np.mean\<close> of a list of floats: the sum over the length, NaN for no element.\<close>

definition np_mean :: "pyfloat list \<Rightarrow> pyfloat" where
  "np_mean xs =
     (if xs = [] then NaN
      else (case foldr py_add xs (Finite 0) of
              Finite s \<Rightarrow> Finite (s / real (length xs))
            | NaN \<Rightarrow> NaN))"

subsection \<open>Images and the environment\<close>

text \<open>
  A numpy array of unsigned bytes: its shape and the entry at every index. A page
  image of pdf2image is given by the array of its pixels.
\<close>

datatype ndarray = NDArray (shape: "nat list") (item: "nat list \<Rightarrow> nat")

fun indices :: "nat list \<Rightarrow> nat list list" where
  "indices [] = [[]]"
| "indices (n # ns) = concat (map (\<lambda>i. map ((#) i) (indices ns)) [0..<n])"

text \<open>\<^verbatim>\<open>np.sum(a == v)\<close>: the number of entries equal to \<open>v\<close>.\<close>

definition np_count_eq :: "ndarray \<Rightarrow> nat \<Rightarrow> nat" where
  "np_count_eq a v = length (filter (\<lambda>ix. item a ix = v) (indices (shape a)))"

text \<open>\<^verbatim>\<open>a.shape[k]\<close>: IndexError beyond the number of dimensions.\<close>

definition shape_at :: "ndarray \<Rightarrow> nat \<Rightarrow> exn + nat" where
  "shape_at a k =
     (if k < length (shape a) then Inr (shape a ! k)
      else Inl (Exception ''tuple index out of range''))"

text \<open>
  What the program asks of the operating system and of its libraries. A PDF document
  opened by PyMuPDF is the list of its pages, each page the outcome of taking the
  page and calling \<^verbatim>\<open>get_text()\<close> on it.
\<close>

record world =
  os_path_exists :: "string \<Rightarrow> bool"
  os_path_join :: "string \<Rightarrow> string \<Rightarrow> string"
  os_path_basename :: "string \<Rightarrow> string"
  os_path_dirname :: "string \<Rightarrow> string"
  os_stat_size :: "string \<Rightarrow> exn + int"
  glob_glob :: "string \<Rightarrow> string list"
  shutil_which :: "string \<Rightarrow> string option"
  fitz_open :: "string \<Rightarrow> exn + (exn + string) list"
  convert_from_path :: "string \<Rightarrow> int \<Rightarrow> int \<Rightarrow> int \<Rightarrow> exn + ndarray list"
  np_array :: "ndarray \<Rightarrow> exn + ndarray"
  cv2_cvtColor_RGB2GRAY :: "ndarray \<Rightarrow> exn + ndarray"
  cv2_threshold_BINARY_INV :: "ndarray \<Rightarrow> int \<Rightarrow> int \<Rightarrow> exn + ndarray"
  open_write :: "string \<Rightarrow> exn + unit"
  askdirectory :: "string"

subsection \<open>Text-layer analysis\<close>

text \<open>
  \<^verbatim>\<open>analyze_pdf_text_layer\<close> of PDF\_Ocr\_Analyzer.py, lines 31 to 82. The loop over the
  pages has no \<^verbatim>\<open>try\<close>: an exception of a page leaves the function.
\<close>

fun text_layer_loop :: "(exn + string) list \<Rightarrow> text_analysis \<Rightarrow> exn + text_analysis" where
  "text_layer_loop [] results = Inr results"
| "text_layer_loop (page # doc) results =
     (case page of
        Inl e \<Rightarrow> Inl e
      | Inr text \<Rightarrow>
          if py_strip text \<noteq> []
          then text_layer_loop doc
                 (results\<lparr>has_text_layer := True,
                          pages_with_text := pages_with_text results + 1,
                          total_text_length :=
                            total_text_length results + int (length (py_strip text))\<rparr>)
          else text_layer_loop doc results)"

definition analyze_pdf_text_layer :: "world \<Rightarrow> string \<Rightarrow> exn + text_analysis" where
  "analyze_pdf_text_layer w pdf_path =
     (case fitz_open w pdf_path of
        Inl e \<Rightarrow> Inl e
      | Inr doc \<Rightarrow>
         (case text_layer_loop doc
                 \<lparr>has_text_layer = False, total_pages = int (length doc),
                  pages_with_text = 0, total_text_length = 0,
                  text_pages_ratio = Finite 0, avg_text_per_page = Finite 0\<rparr> of
            Inl e \<Rightarrow> Inl e
          | Inr results \<Rightarrow>
              if total_pages results > 0
              then (case py_truediv (pages_with_text results) (total_pages results) of
                      Inl e \<Rightarrow> Inl e
                    | Inr ratio \<Rightarrow>
                       (case py_truediv (total_text_length results)
                               (max (pages_with_text results) 1) of
                          Inl e \<Rightarrow> Inl e
                        | Inr avg \<Rightarrow>
                            Inr (results\<lparr>text_pages_ratio := ratio,
                                         avg_text_per_page := avg\<rparr>)))
              else Inr results))"

text \<open>\<^verbatim>\<open>analyze_pdf_text_layer\<close> of TextQualityCheck.py, lines 8 to 42.\<close>

fun text_layer_loop_tqc :: "(exn + string) list \<Rightarrow> text_analysis \<Rightarrow> exn + text_analysis" where
  "text_layer_loop_tqc [] results = Inr results"
| "text_layer_loop_tqc (page # doc) results =
     (case page of
        Inl e \<Rightarrow> Inl e
      | Inr text \<Rightarrow>
          if py_strip text \<noteq> []
          then text_layer_loop_tqc doc
                 (results\<lparr>has_text_layer := True,
                          pages_with_text := pages_with_text results + 1,
                          total_text_length :=
                            total_text_length results + int (length (py_strip text))\<rparr>)
          else text_layer_loop_tqc doc results)"

definition analyze_pdf_text_layer_tqc :: "world \<Rightarrow> string \<Rightarrow> exn + text_analysis" where
  "analyze_pdf_text_layer_tqc w pdf_path =
     (case fitz_open w pdf_path of
        Inl e \<Rightarrow> Inl e
      | Inr doc \<Rightarrow>
         (case text_layer_loop_tqc doc
                 \<lparr>has_text_layer = False, total_pages = int (length doc),
                  pages_with_text = 0, total_text_length = 0,
                  text_pages_ratio = Finite 0, avg_text_per_page = Finite 0\<rparr> of
            Inl e \<Rightarrow> Inl e
          | Inr results \<Rightarrow>
              if total_pages results > 0
              then (case py_truediv (pages_with_text results) (total_pages results) of
                      Inl e \<Rightarrow> Inl e
                    | Inr ratio \<Rightarrow>
                       (case py_truediv (total_text_length results)
                               (max (pages_with_text results) 1) of
                          Inl e \<Rightarrow> Inl e
                        | Inr avg \<Rightarrow>
                            Inr (results\<lparr>text_pages_ratio := ratio,
                                         avg_text_per_page := avg\<rparr>)))
              else Inr results))"

subsection \<open>Visual density\<close>

text \<open>
  \<^verbatim>\<open>calculate_text_density\<close> of PDF\_Ocr\_Analyzer.py, lines 84 to 127. The body of
  the \<^verbatim>\<open>try\<close> comes first, in two parts: \<open>binarize\<close> is its first three statements
  (the array of the image, the conversion of a three-dimensional array to gray, the
  inverted threshold at 127), the rest counts and divides. The quotient
  \<^verbatim>\<open>black_pixels / total_pixels\<close> is numpy's: no exception at zero, but NaN for
  \<^verbatim>\<open>0 / 0\<close> (an array without entries has no entry equal to 255).
\<close>

definition binarize :: "world \<Rightarrow> ndarray \<Rightarrow> exn + ndarray" where
  "binarize w img =
     (case np_array w img of
        Inl e \<Rightarrow> Inl e
      | Inr img_array \<Rightarrow>
         (case (if length (shape img_array) = 3
                then cv2_cvtColor_RGB2GRAY w img_array
                else Inr img_array) of
            Inl e \<Rightarrow> Inl e
          | Inr gray \<Rightarrow> cv2_threshold_BINARY_INV w gray 127 255))"

definition calculate_text_density_try :: "world \<Rightarrow> ndarray \<Rightarrow> exn + pyfloat" where
  "calculate_text_density_try w img =
     (case binarize w img of
        Inl e \<Rightarrow> Inl e
      | Inr binary \<Rightarrow>
         (let black_pixels = np_count_eq binary 255
          in (case shape_at binary 0 of
                Inl e \<Rightarrow> Inl e
              | Inr rows \<Rightarrow>
                 (case shape_at binary 1 of
                    Inl e \<Rightarrow> Inl e
                  | Inr cols \<Rightarrow>
                     (let total_pixels = rows * cols;
                          text_density =
                            (if total_pixels = 0 then NaN
                             else Finite (real black_pixels / real total_pixels))
                      in Inr (py_min text_density (Finite 1)))))))"

definition calculate_text_density :: "world \<Rightarrow> ndarray \<Rightarrow> pyfloat" where
  "calculate_text_density w img =
     (case calculate_text_density_try w img of
        Inl e \<Rightarrow> Finite 0
      | Inr density \<Rightarrow> density)"

text \<open>
  A page image has pixels when its binarized array, if there is one of two or more
  dimensions, has a positive number of rows and of columns.
\<close>

definition page_has_pixels :: "world \<Rightarrow> ndarray \<Rightarrow> bool" where
  "page_has_pixels w img =
     (case binarize w img of
        Inl e \<Rightarrow> True
      | Inr binary \<Rightarrow>
         (case shape binary of
            rows # cols # rest \<Rightarrow> 0 < rows * cols
          | _ \<Rightarrow> True))"

text \<open>\<^verbatim>\<open>analyze_visual_text_density\<close> of PDF\_Ocr\_Analyzer.py, lines 129 to 173.\<close>

definition analyze_visual_text_density_try :: "world \<Rightarrow> string \<Rightarrow> int \<Rightarrow> exn + pyfloat" where
  "analyze_visual_text_density_try w pdf_path sample_pages =
     (case convert_from_path w pdf_path 1 (min sample_pages 10) 100 of
        Inl e \<Rightarrow> Inl e
      | Inr images \<Rightarrow>
          if images = [] then Inr (Finite 0)
          else (let densities = map (calculate_text_density w) images
                in Inr (if densities \<noteq> [] then np_mean densities else Finite 0)))"

definition analyze_visual_text_density :: "world \<Rightarrow> string \<Rightarrow> int \<Rightarrow> pyfloat" where
  "analyze_visual_text_density w pdf_path sample_pages =
     (case analyze_visual_text_density_try w pdf_path sample_pages of
        Inl e \<Rightarrow> Finite 0
      | Inr avg_density \<Rightarrow> avg_density)"

text \<open>The pages handed to the estimator for a document all have pixels.\<close>

definition pages_have_pixels :: "world \<Rightarrow> string \<Rightarrow> int \<Rightarrow> bool" where
  "pages_have_pixels w pdf_path sample_pages =
     (case convert_from_path w pdf_path 1 (min sample_pages 10) 100 of
        Inl e \<Rightarrow> True
      | Inr images \<Rightarrow> list_all (page_has_pixels w) images)"

subsection \<open>File metrics and the rasterization backend\<close>

text \<open>\<^verbatim>\<open>get_file_metrics\<close> of PDF\_Ocr\_Analyzer.py, lines 175 to 191.\<close>

definition get_file_metrics :: "world \<Rightarrow> string \<Rightarrow> exn + file_metrics" where
  "get_file_metrics w pdf_path =
     (case os_stat_size w pdf_path of
        Inl e \<Rightarrow> Inl e
      | Inr st_size \<Rightarrow>
         (case py_truediv st_size (1024 * 1024) of
            Inl e \<Rightarrow> Inl e
          | Inr mb \<Rightarrow>
              Inr \<lparr>file_size_mb = mb, filename = os_path_basename w pdf_path\<rparr>))"

text \<open>
  \<^verbatim>\<open>setup_poppler\<close> of PDF\_Ocr\_Analyzer.py, lines 12 to 29, and the truth value of
  a string or \<^verbatim>\<open>None\<close> in a condition.
\<close>

definition truthy :: "string option \<Rightarrow> bool" where
  "truthy v = (case v of None \<Rightarrow> False | Some s \<Rightarrow> s \<noteq> [])"

definition setup_poppler :: "world \<Rightarrow> string option" where
  "setup_poppler w =
     (case shutil_which w ''pdftoppm'' of
        None \<Rightarrow> None
      | Some poppler_cmd \<Rightarrow>
          if poppler_cmd \<noteq> [] then Some (os_path_dirname w poppler_cmd) else None)"

subsection \<open>The orchestrator of one document\<close>

text \<open>
  The dict returned by \<^verbatim>\<open>analyze_pdf_ocr_need\<close> and appended by the batch driver; the
  key \<^verbatim>\<open>error\<close> is present only in the driver's error record. The fields carry the
  prefix \<open>res_\<close> (the key \<^verbatim>\<open>filename\<close> is a field of \<open>file_metrics\<close> already).
\<close>

record ocr_result =
  res_filename :: string
  res_has_text_layer :: bool
  res_text_pages_ratio :: pyfloat
  res_avg_text_density :: pyfloat
  res_ocr_required :: bool
  res_file_size_mb :: pyfloat
  res_total_pages :: int
  res_error :: "string option"

text \<open>
  \<^verbatim>\<open>analyze_pdf_ocr_need\<close> of PDF\_Ocr\_Analyzer.py, lines 235 to 297: the body of its
  \<^verbatim>\<open>try\<close>, then the function. \<^verbatim>\<open>except Exception\<close> returns \<^verbatim>\<open>None\<close>; nothing outside
  the \<^verbatim>\<open>try\<close> can raise, so the function itself always returns.
\<close>

definition analyze_pdf_ocr_need_try :: "world \<Rightarrow> string \<Rightarrow> exn + ocr_result" where
  "analyze_pdf_ocr_need_try w pdf_path =
     (case get_file_metrics w pdf_path of
        Inl e \<Rightarrow> Inl e
      | Inr file_metrics \<Rightarrow>
         (case analyze_pdf_text_layer w pdf_path of
            Inl e \<Rightarrow> Inl e
          | Inr text_analysis \<Rightarrow>
             (let poppler_path = setup_poppler w;
                  visual_density =
                    (if truthy poppler_path
                     then analyze_visual_text_density w pdf_path 5
                     else Finite 0);
                  ocr_required = needs_ocr_analysis text_analysis visual_density file_metrics
              in Inr \<lparr>res_filename = filename file_metrics,
                      res_has_text_layer = has_text_layer text_analysis,
                      res_text_pages_ratio = text_pages_ratio text_analysis,
                      res_avg_text_density = visual_density,
                      res_ocr_required = ocr_required,
                      res_file_size_mb = file_size_mb file_metrics,
                      res_total_pages = total_pages text_analysis,
                      res_error = None\<rparr>)))"

definition analyze_pdf_ocr_need :: "world \<Rightarrow> string \<Rightarrow> exn + ocr_result option" where
  "analyze_pdf_ocr_need w pdf_path =
     Inr (case analyze_pdf_ocr_need_try w pdf_path of
            Inl e \<Rightarrow> None
          | Inr result \<Rightarrow> Some result)"

subsection \<open>The batch driver\<close>

text \<open>\<^verbatim>\<open>find_pdf_files\<close> of PDF\_Ocr\_Analyzer.py, lines 314 to 326.\<close>

definition find_pdf_files :: "world \<Rightarrow> string \<Rightarrow> string list" where
  "find_pdf_files w folder_path = glob_glob w (os_path_join w folder_path ''*.pdf'')"

text \<open>
  The record that the \<^verbatim>\<open>except\<close> branch of the loop of \<^verbatim>\<open>analyze_pdf_folder\<close>
  appends (lines 368 to 377); \<^verbatim>\<open>os.path.getsize\<close> there is outside every \<^verbatim>\<open>try\<close>.
\<close>

definition error_record :: "world \<Rightarrow> string \<Rightarrow> exn \<Rightarrow> exn + ocr_result" where
  "error_record w pdf_path e =
     (case os_stat_size w pdf_path of
        Inl e' \<Rightarrow> Inl e'
      | Inr getsize \<Rightarrow>
         (case py_truediv getsize (1024 * 1024) of
            Inl e' \<Rightarrow> Inl e'
          | Inr mb \<Rightarrow>
              Inr \<lparr>res_filename = os_path_basename w pdf_path,
                   res_has_text_layer = False,
                   res_text_pages_ratio = Finite 0,
                   res_avg_text_density = Finite 0,
                   res_ocr_required = True,
                   res_file_size_mb = mb,
                   res_total_pages = 0,
                   res_error = Some (case e of Exception msg \<Rightarrow> msg)\<rparr>))"

text \<open>
  The loop of \<^verbatim>\<open>analyze_pdf_folder\<close>, lines 356 to 377. \<^verbatim>\<open>if result:\<close> holds for
  every dict the orchestrator returns (it has seven keys) and fails for \<^verbatim>\<open>None\<close>.
\<close>

fun analyze_pdf_folder_loop :: "world \<Rightarrow> string list \<Rightarrow> ocr_result list \<Rightarrow> exn + ocr_result list" where
  "analyze_pdf_folder_loop w [] results = Inr results"
| "analyze_pdf_folder_loop w (pdf_path # pdf_files) results =
     (case analyze_pdf_ocr_need w pdf_path of
        Inr result \<Rightarrow>
         (case result of
            Some r \<Rightarrow> analyze_pdf_folder_loop w pdf_files (results @ [r])
          | None \<Rightarrow> analyze_pdf_folder_loop w pdf_files results)
      | Inl e \<Rightarrow>
         (case error_record w pdf_path e of
            Inl e' \<Rightarrow> Inl e'
          | Inr r \<Rightarrow> analyze_pdf_folder_loop w pdf_files (results @ [r])))"

text \<open>\<^verbatim>\<open>analyze_pdf_folder\<close> of PDF\_Ocr\_Analyzer.py, lines 328 to 379.\<close>

definition analyze_pdf_folder :: "world \<Rightarrow> string \<Rightarrow> exn + ocr_result list" where
  "analyze_pdf_folder w folder_path =
     (if \<not> os_path_exists w folder_path then Inr []
      else (let pdf_files = find_pdf_files w folder_path
            in if pdf_files = [] then Inr []
               else analyze_pdf_folder_loop w pdf_files []))"

subsection \<open>The CSV report\<close>

text \<open>
  A value of a result dict, as \<^verbatim>\<open>csv.DictWriter\<close> receives it. The writer's own text
  (quoting, \<^verbatim>\<open>str\<close> of a float) is the library's; a written file is its header and
  its rows of values. \<open>PStr []\<close> is the blank cell, the default \<^verbatim>\<open>''\<close> of
  \<^verbatim>\<open>result.get(field, '')\<close>.
\<close>

datatype pyval = PStr string | PBool bool | PFloat pyfloat | PInt int

record csv_file =
  csv_header :: "string list"
  csv_rows :: "pyval list list"

text \<open>\<^verbatim>\<open>result.get(field, default)\<close> on a result dict.\<close>

definition result_get :: "ocr_result \<Rightarrow> string \<Rightarrow> pyval \<Rightarrow> pyval" where
  "result_get result field dflt =
     (if field = ''filename'' then PStr (res_filename result)
      else if field = ''has_text_layer'' then PBool (res_has_text_layer result)
      else if field = ''text_pages_ratio'' then PFloat (res_text_pages_ratio result)
      else if field = ''avg_text_density'' then PFloat (res_avg_text_density result)
      else if field = ''ocr_required'' then PBool (res_ocr_required result)
      else if field = ''file_size_mb'' then PFloat (res_file_size_mb result)
      else if field = ''total_pages'' then PInt (res_total_pages result)
      else if field = ''error''
        then (case res_error result of None \<Rightarrow> dflt | Some msg \<Rightarrow> PStr msg)
      else dflt)"

definition fieldnames :: "string list" where
  "fieldnames = [''filename'', ''has_text_layer'', ''avg_text_density'', ''ocr_required'']"

text \<open>
  \<^verbatim>\<open>save_to_csv\<close> of PDF\_Ocr\_Analyzer.py, lines 422 to 452: the file it leaves, or
  \<open>None\<close> when it writes none (no results, or the file cannot be opened).
\<close>

definition save_to_csv :: "world \<Rightarrow> ocr_result list \<Rightarrow> string \<Rightarrow> csv_file option" where
  "save_to_csv w results file =
     (if results = [] then None
      else (case open_write w file of
              Inl e \<Rightarrow> None
            | Inr _ \<Rightarrow>
                Some \<lparr>csv_header = fieldnames,
                      csv_rows =
                        map (\<lambda>result. map (\<lambda>field. result_get result field (PStr [])) fieldnames)
                          results\<rparr>))"

text \<open>
  \<^verbatim>\<open>main\<close> of PDF\_Ocr\_Analyzer.py, lines 454 to 485: its return value and the CSV
  file it leaves.
\<close>

definition main :: "world \<Rightarrow> exn + (bool \<times> csv_file option)" where
  "main w =
     (let folder_path = askdirectory w
      in if folder_path = [] then Inr (False, None)
         else (case analyze_pdf_folder w folder_path of
                 Inl e \<Rightarrow> Inl e
               | Inr results \<Rightarrow>
                   if results \<noteq> []
                   then Inr (True, save_to_csv w results ''ocr_analysis_report.csv'')
                   else Inr (True, None)))"

section \<open>Concrete inputs\<close>

text \<open>
  The inputs on which the theorems below are evaluated. Scenario C of the
  specification: 20 pages, 18 of them with text, 300 characters on a text page, a
  file of 2 MB, a visual density of 0.15.
\<close>

definition scenario_C_text :: text_analysis where
  "scenario_C_text =
     \<lparr>has_text_layer = True, total_pages = 20, pages_with_text = 18,
      total_text_length = 5400, text_pages_ratio = Finite 0.9,
      avg_text_per_page = Finite 300\<rparr>"

definition scenario_C_file :: file_metrics where
  "scenario_C_file = \<lparr>file_size_mb = Finite 2, filename = ''c.pdf''\<rparr>"

text \<open>Twelve pages, five of them with text: only rule 5 holds.\<close>

definition sparse_text :: text_analysis where
  "sparse_text =
     \<lparr>has_text_layer = True, total_pages = 12, pages_with_text = 5,
      total_text_length = 2000, text_pages_ratio = Finite (5 / 12),
      avg_text_per_page = Finite 400\<rparr>"

text \<open>
  The rule list in which rule \<open>i + 1\<close> alone holds, and for each of the five rules an
  input of the decision engine on which the rule list is that one.
\<close>

definition only_rule :: "nat \<Rightarrow> bool list" where
  "only_rule i = (replicate 5 False)[i := True]"

definition rule_input :: "nat \<Rightarrow> text_analysis \<times> pyfloat \<times> file_metrics" where
  "rule_input i =
     (\<lparr>has_text_layer = (i \<noteq> 0),
       total_pages = (if i = 4 then 12 else 8),
       pages_with_text = (if i = 1 then 2 else if i = 4 then 5 else 8),
       total_text_length = (if i = 3 then 80 else 2400),
       text_pages_ratio = Finite (if i = 1 then 0.25 else if i = 4 then 5 / 12 else 1),
       avg_text_per_page = Finite (if i = 3 then 10 else 300)\<rparr>,
      Finite (if i = 2 then 0.01 else 0.15),
      \<lparr>file_size_mb = Finite (if i = 3 then 8 else 2), filename = ''r.pdf''\<rparr>)"

text \<open>
  An environment for the evaluations: POSIX paths, a folder \<^verbatim>\<open>docs\<close>, the fixed-level
  inverted threshold of OpenCV, and a colour conversion that takes three channels
  only. Nothing can be opened in it; the environments below change single fields.
\<close>

definition posix_basename :: "string \<Rightarrow> string" where
  "posix_basename p = rev (takeWhile (\<lambda>c. c \<noteq> CHR ''/'') (rev p))"

definition posix_dirname :: "string \<Rightarrow> string" where
  "posix_dirname p = rev (drop 1 (dropWhile (\<lambda>c. c \<noteq> CHR ''/'') (rev p)))"

definition threshold_binary_inv :: "ndarray \<Rightarrow> int \<Rightarrow> int \<Rightarrow> exn + ndarray" where
  "threshold_binary_inv a thresh maxval =
     Inr (NDArray (shape a) (\<lambda>ix. if int (item a ix) > thresh then 0 else nat maxval))"

definition rgb2gray :: "ndarray \<Rightarrow> exn + ndarray" where
  "rgb2gray a =
     (if length (shape a) = 3 \<and> shape a ! 2 = 3
      then Inr (NDArray (take 2 (shape a))
                  (\<lambda>ix. (item a (ix @ [0]) + item a (ix @ [1]) + item a (ix @ [2])) div 3))
      else Inl (Exception ''cvtColor: invalid number of channels''))"

definition base_world :: world where
  "base_world =
     \<lparr>os_path_exists = (\<lambda>p. p = ''docs''),
      os_path_join = (\<lambda>a b. a @ ''/'' @ b),
      os_path_basename = posix_basename,
      os_path_dirname = posix_dirname,
      os_stat_size = (\<lambda>p. Inl (Exception ''No such file or directory'')),
      glob_glob = (\<lambda>pattern. []),
      shutil_which = (\<lambda>cmd. None),
      fitz_open = (\<lambda>p. Inl (Exception ''cannot open file'')),
      convert_from_path = (\<lambda>p first_page last_page dpi. Inl (Exception ''Unable to get page count'')),
      np_array = Inr,
      cv2_cvtColor_RGB2GRAY = rgb2gray,
      cv2_threshold_BINARY_INV = threshold_binary_inv,
      open_write = (\<lambda>p. Inr ()),
      askdirectory = ''docs''\<rparr>"

definition three_page_world :: world where
  "three_page_world =
     base_world\<lparr>fitz_open := (\<lambda>p. Inr [Inr ''Hello'', Inr ''  '', Inr '' ab '']),
                os_stat_size := (\<lambda>p. Inr 2097152)\<rparr>"

definition page_fail_world :: world where
  "page_fail_world =
     base_world\<lparr>fitz_open :=
                  (\<lambda>p. Inr [Inr ''abc'', Inl (Exception ''cannot extract text''), Inr ''def'']),
                os_stat_size := (\<lambda>p. Inr 2097152)\<rparr>"

definition three_page_metrics :: text_analysis where
  "three_page_metrics =
     \<lparr>has_text_layer = True, total_pages = 3, pages_with_text = 2,
      total_text_length = 7, text_pages_ratio = Finite (2 / 3),
      avg_text_per_page = Finite (7 / 2)\<rparr>"

text \<open>
  Two rasterized pages in RGB: a page of one row and two columns, one pixel black and
  one white, and a page so large that numpy cannot allocate its array.
\<close>

definition half_dark_page :: ndarray where
  "half_dark_page = NDArray [1, 2, 3] (\<lambda>ix. if take 2 ix = [0, 0] then 0 else 255)"

definition oversized_page :: ndarray where
  "oversized_page = NDArray [30000, 30000, 3] (\<lambda>ix. 255)"

definition two_page_world :: world where
  "two_page_world =
     base_world\<lparr>convert_from_path :=
                  (\<lambda>p first_page last_page dpi. Inr [half_dark_page, oversized_page]),
                np_array :=
                  (\<lambda>img. if shape img = [30000, 30000, 3]
                         then Inl (Exception ''Unable to allocate array'')
                         else Inr img)\<rparr>"

text \<open>
  Scenario A of the specification: ten pages, each with 500 characters of text, a
  file of 1 MB (1048576 bytes), and no \<^verbatim>\<open>pdftoppm\<close> on the search path.
\<close>

definition scenario_A_world :: world where
  "scenario_A_world =
     base_world\<lparr>fitz_open := (\<lambda>p. Inr (replicate 10 (Inr (replicate 500 CHR ''a'')))),
                os_stat_size := (\<lambda>p. Inr 1048576)\<rparr>"

definition scenario_A_text :: text_analysis where
  "scenario_A_text =
     \<lparr>has_text_layer = True, total_pages = 10, pages_with_text = 10,
      total_text_length = 5000, text_pages_ratio = Finite 1,
      avg_text_per_page = Finite 500\<rparr>"

definition scenario_A_result :: ocr_result where
  "scenario_A_result =
     \<lparr>res_filename = ''a.pdf'', res_has_text_layer = True, res_text_pages_ratio = Finite 1,
      res_avg_text_density = Finite 0, res_ocr_required = True, res_file_size_mb = Finite 1,
      res_total_pages = 10, res_error = None\<rparr>"

text \<open>
  A folder \<^verbatim>\<open>docs\<close> with two files of 2 MB: \<^verbatim>\<open>ok.pdf\<close>, one page with the text
  \<^verbatim>\<open>Hello\<close>, and \<^verbatim>\<open>broken.pdf\<close>, which PyMuPDF cannot open. Then the result of the
  first, and the error record that the \<^verbatim>\<open>except\<close> branch of the batch loop builds for
  the second.
\<close>

definition mixed_world :: world where
  "mixed_world =
     base_world\<lparr>glob_glob := (\<lambda>pattern. if pattern = ''docs/*.pdf''
                                 then [''docs/ok.pdf'', ''docs/broken.pdf''] else []),
                fitz_open := (\<lambda>p. if p = ''docs/ok.pdf'' then Inr [Inr ''Hello'']
                                 else Inl (Exception ''cannot open file'')),
                os_stat_size := (\<lambda>p. Inr 2097152)\<rparr>"

definition ok_result :: ocr_result where
  "ok_result =
     \<lparr>res_filename = ''ok.pdf'', res_has_text_layer = True, res_text_pages_ratio = Finite 1,
      res_avg_text_density = Finite 0, res_ocr_required = True, res_file_size_mb = Finite 2,
      res_total_pages = 1, res_error = None\<rparr>"

definition broken_error_record :: ocr_result where
  "broken_error_record =
     \<lparr>res_filename = ''broken.pdf'', res_has_text_layer = False,
      res_text_pages_ratio = Finite 0, res_avg_text_density = Finite 0,
      res_ocr_required = True, res_file_size_mb = Finite 2, res_total_pages = 0,
      res_error = Some ''cannot open file''\<rparr>"

section \<open>The decision engine\<close>

lemma py_any_five: "py_any [a, b, c, d, e] = (a \<or> b \<or> c \<or> d \<or> e)"
  by simp

lemma py_le_lt_trans: "py_le a b \<Longrightarrow> py_lt b c \<Longrightarrow> py_lt a c"
  by (cases a; cases b; cases c) simp_all

text \<open>
  C1. \<^verbatim>\<open>needs_ocr_analysis\<close> (in either file) returns true exactly when one of the
  five rules holds: no text layer; text page ratio below 0.3; visual density below
  0.02; file above 5 MB with fewer than 50 characters per text page; more than 10
  pages with a text page ratio below 0.5. On the inputs of Scenario C it returns
  false.
\<close>

theorem needs_ocr_analysis_five_rules:
  "needs_ocr_analysis t v f =
     (\<not> has_text_layer t
      \<or> py_lt (text_pages_ratio t) (Finite 0.3)
      \<or> py_lt v (Finite 0.02)
      \<or> (py_gt (file_size_mb f) (py_float 5) \<and> py_lt (avg_text_per_page t) (py_float 50))
      \<or> (total_pages t > 10 \<and> py_lt (text_pages_ratio t) (Finite 0.5)))
   \<and> needs_ocr_analysis_tqc t v f =
     (\<not> has_text_layer t
      \<or> py_lt (text_pages_ratio t) (Finite 0.3)
      \<or> py_lt v (Finite 0.02)
      \<or> (py_gt (file_size_mb f) (py_float 5) \<and> py_lt (avg_text_per_page t) (py_float 50))
      \<or> (total_pages t > 10 \<and> py_lt (text_pages_ratio t) (Finite 0.5)))
   \<and> \<not> needs_ocr_analysis scenario_C_text (Finite 0.15) scenario_C_file
   \<and> \<not> needs_ocr_analysis_tqc scenario_C_text (Finite 0.15) scenario_C_file"
proof -
  have a: "needs_ocr_analysis t v f =
     (\<not> has_text_layer t
      \<or> py_lt (text_pages_ratio t) (Finite 0.3)
      \<or> py_lt v (Finite 0.02)
      \<or> (py_gt (file_size_mb f) (py_float 5) \<and> py_lt (avg_text_per_page t) (py_float 50))
      \<or> (total_pages t > 10 \<and> py_lt (text_pages_ratio t) (Finite 0.5)))" for t v f
    unfolding needs_ocr_analysis_def rules_def by (rule py_any_five)
  have b: "needs_ocr_analysis_tqc t v f =
     (\<not> has_text_layer t
      \<or> py_lt (text_pages_ratio t) (Finite 0.3)
      \<or> py_lt v (Finite 0.02)
      \<or> (py_gt (file_size_mb f) (py_float 5) \<and> py_lt (avg_text_per_page t) (py_float 50))
      \<or> (total_pages t > 10 \<and> py_lt (text_pages_ratio t) (Finite 0.5)))" for t v f
    unfolding needs_ocr_analysis_tqc_def rules_tqc_def by (rule py_any_five)
  have c: "\<not> needs_ocr_analysis scenario_C_text (Finite 0.15) scenario_C_file"
    unfolding a by (simp add: scenario_C_text_def scenario_C_file_def py_gt_def py_float_def)
  have d: "\<not> needs_ocr_analysis_tqc scenario_C_text (Finite 0.15) scenario_C_file"
    unfolding b by (simp add: scenario_C_text_def scenario_C_file_def py_gt_def py_float_def)
  from a b c d show ?thesis by blast
qed

theorem needs_ocr_analysis_five_rules_witness:
  "needs_ocr_analysis sparse_text (Finite 0.15) scenario_C_file
   \<and> needs_ocr_analysis_tqc sparse_text (Finite 0.15) scenario_C_file"
  using needs_ocr_analysis_five_rules [of sparse_text "Finite 0.15" scenario_C_file]
  by (simp add: sparse_text_def scenario_C_file_def py_gt_def py_float_def)

text \<open>
  C9. The two copies of the decision engine agree: on every input,
  \<^verbatim>\<open>needs_ocr_analysis\<close> of TextQualityCheck.py returns what \<^verbatim>\<open>needs_ocr_analysis\<close> of
  PDF\_Ocr\_Analyzer.py returns.
\<close>

theorem needs_ocr_analysis_duplicate_equal:
  "needs_ocr_analysis_tqc text_analysis visual_analysis file_metrics
     = needs_ocr_analysis text_analysis visual_analysis file_metrics"
  by (simp add: needs_ocr_analysis_tqc_def needs_ocr_analysis_def rules_tqc_def rules_def)

theorem needs_ocr_analysis_duplicate_equal_witness:
  "needs_ocr_analysis_tqc sparse_text (Finite 0.15) scenario_C_file
     = needs_ocr_analysis sparse_text (Finite 0.15) scenario_C_file"
  by (rule needs_ocr_analysis_duplicate_equal)

text \<open>
  C10. \<^verbatim>\<open>needs_ocr_analysis\<close> is antitone in the visual density: with the text
  analysis and the file metrics fixed and \<open>d1 \<le> d2\<close>, a verdict of true at \<open>d2\<close> is a
  verdict of true at \<open>d1\<close>.
\<close>

theorem needs_ocr_analysis_antitone:
  "py_le d1 d2 \<Longrightarrow>
     (needs_ocr_analysis t d2 f \<longrightarrow> needs_ocr_analysis t d1 f)
     \<and> (needs_ocr_analysis_tqc t d2 f \<longrightarrow> needs_ocr_analysis_tqc t d1 f)"
  unfolding needs_ocr_analysis_def rules_def needs_ocr_analysis_tqc_def rules_tqc_def py_any_five
  using py_le_lt_trans [of d1 d2 "Finite 0.02"] by blast

theorem needs_ocr_analysis_antitone_witness:
  "py_le (Finite 0.01) (Finite 0.015)
   \<and> needs_ocr_analysis scenario_C_text (Finite 0.015) scenario_C_file
   \<and> needs_ocr_analysis scenario_C_text (Finite 0.01) scenario_C_file
   \<and> \<not> needs_ocr_analysis scenario_C_text (Finite 0.15) scenario_C_file"
proof -
  have le: "py_le (Finite 0.01) (Finite 0.015)" by simp
  have hi: "needs_ocr_analysis scenario_C_text (Finite 0.015) scenario_C_file"
    by (simp add: needs_ocr_analysis_def rules_def)
  have lo: "needs_ocr_analysis scenario_C_text (Finite 0.01) scenario_C_file"
    using needs_ocr_analysis_antitone [OF le, of scenario_C_text scenario_C_file] hi by blast
  have no: "\<not> needs_ocr_analysis scenario_C_text (Finite 0.15) scenario_C_file"
    by (simp add: needs_ocr_analysis_def rules_def scenario_C_text_def scenario_C_file_def
        py_gt_def py_float_def)
  from le hi lo no show ?thesis by blast
qed

lemma only_rule_cases:
  "only_rule 0 = [True, False, False, False, False]"
  "only_rule 1 = [False, True, False, False, False]"
  "only_rule (Suc 0) = [False, True, False, False, False]"
  "only_rule 2 = [False, False, True, False, False]"
  "only_rule 3 = [False, False, False, True, False]"
  "only_rule 4 = [False, False, False, False, True]"
  by (simp_all add: only_rule_def eval_nat_numeral)

lemma less_five: "i < (5::nat) \<Longrightarrow> i = 0 \<or> i = 1 \<or> i = 2 \<or> i = 3 \<or> i = 4"
  by arith

lemma rules_rule_input:
  "i < 5 \<Longrightarrow> (case rule_input i of (t, v, f) \<Rightarrow> rules t v f) = only_rule i"
  by (drule less_five) (auto simp add: only_rule_cases rule_input_def rules_def py_gt_def py_float_def)

lemma rules_tqc_rule_input:
  "i < 5 \<Longrightarrow> (case rule_input i of (t, v, f) \<Rightarrow> rules_tqc t v f) = only_rule i"
  by (drule less_five) (auto simp add: only_rule_cases rule_input_def rules_tqc_def py_gt_def py_float_def)

lemma py_any_only_rule: "i < 5 \<Longrightarrow> py_any (only_rule i)"
  by (drule less_five) (auto simp add: only_rule_cases)

text \<open>
  C5. Each of the five rules is sufficient on its own: for each rule there is an
  input on which that rule holds and the other four do not, and on every such input
  \<^verbatim>\<open>needs_ocr_analysis\<close> (in either file) returns true. The function is deterministic:
  equal inputs give equal results.
\<close>

theorem each_rule_sufficient:
  "(\<forall>i<5. \<exists>t v f. rules t v f = only_rule i \<and> rules_tqc t v f = only_rule i)
   \<and> (\<forall>i<5. \<forall>t v f. rules t v f = only_rule i \<longrightarrow> needs_ocr_analysis t v f)
   \<and> (\<forall>i<5. \<forall>t v f. rules_tqc t v f = only_rule i \<longrightarrow> needs_ocr_analysis_tqc t v f)
   \<and> (\<forall>t v f t' v' f'. t = t' \<and> v = v' \<and> f = f' \<longrightarrow>
         needs_ocr_analysis t v f = needs_ocr_analysis t' v' f'
         \<and> needs_ocr_analysis_tqc t v f = needs_ocr_analysis_tqc t' v' f')"
proof (intro conjI allI impI)
  fix i :: nat
  assume i: "i < 5"
  obtain t v f where r: "rule_input i = (t, v, f)"
    by (cases "rule_input i") auto
  have "rules t v f = only_rule i" using rules_rule_input [OF i] r by simp
  moreover have "rules_tqc t v f = only_rule i" using rules_tqc_rule_input [OF i] r by simp
  ultimately show "\<exists>t v f. rules t v f = only_rule i \<and> rules_tqc t v f = only_rule i"
    by blast
next
  fix i :: nat and t :: text_analysis and v :: pyfloat and f :: file_metrics
  assume "i < 5" and "rules t v f = only_rule i"
  then show "needs_ocr_analysis t v f"
    by (simp add: needs_ocr_analysis_def py_any_only_rule)
next
  fix i :: nat and t :: text_analysis and v :: pyfloat and f :: file_metrics
  assume "i < 5" and "rules_tqc t v f = only_rule i"
  then show "needs_ocr_analysis_tqc t v f"
    by (simp add: needs_ocr_analysis_tqc_def py_any_only_rule)
next
  fix t t' :: text_analysis and v v' :: pyfloat and f f' :: file_metrics
  assume "t = t' \<and> v = v' \<and> f = f'"
  then show "needs_ocr_analysis t v f = needs_ocr_analysis t' v' f'" by simp
next
  fix t t' :: text_analysis and v v' :: pyfloat and f f' :: file_metrics
  assume "t = t' \<and> v = v' \<and> f = f'"
  then show "needs_ocr_analysis_tqc t v f = needs_ocr_analysis_tqc t' v' f'" by simp
qed

theorem each_rule_sufficient_witness:
  "rules (fst (rule_input 3)) (fst (snd (rule_input 3))) (snd (snd (rule_input 3)))
     = [False, False, False, True, False]
   \<and> needs_ocr_analysis (fst (rule_input 3)) (fst (snd (rule_input 3))) (snd (snd (rule_input 3)))"
proof -
  have r: "rules (fst (rule_input 3)) (fst (snd (rule_input 3))) (snd (snd (rule_input 3)))
     = only_rule 3"
    by (simp add: rule_input_def rules_def py_gt_def py_float_def only_rule_cases)
  have "(3::nat) < 5" by simp
  with each_rule_sufficient r
  have "needs_ocr_analysis (fst (rule_input 3)) (fst (snd (rule_input 3))) (snd (snd (rule_input 3)))"
    by blast
  with r show ?thesis by (simp add: only_rule_cases)
qed

section \<open>Text-layer analysis\<close>

lemma py_isspace_simps:
  "py_isspace CHR '' ''" "\<not> py_isspace CHR ''a''" "\<not> py_isspace CHR ''H''" "\<not> py_isspace CHR ''b''"
  "\<not> py_isspace CHR ''o''"  "\<not> py_isspace CHR ''c''" "\<not> py_isspace CHR ''d''" "\<not> py_isspace CHR ''f''"
  by (simp_all add: py_isspace_def)


lemma text_layer_loop_tqc_eq: "text_layer_loop_tqc doc r = text_layer_loop doc r"
  by (induction doc arbitrary: r) (auto split: sum.splits)

lemma analyze_pdf_text_layer_tqc_eq:
  "analyze_pdf_text_layer_tqc w p = analyze_pdf_text_layer w p"
  unfolding analyze_pdf_text_layer_tqc_def analyze_pdf_text_layer_def text_layer_loop_tqc_eq
  by (rule refl)

lemma text_layer_loop_fail:
  "text_layer_loop (map Inr before @ Inl e # rest) r = Inl e"
  by (induction before arbitrary: r) auto

lemma text_layer_loop_total:
  "\<exists>r'. text_layer_loop (map Inr texts) r = Inr r'"
  by (induction texts arbitrary: r) auto

lemma text_layer_loop_inv:
  "text_layer_loop doc r = Inr r' \<Longrightarrow>
     total_pages r' = total_pages r
     \<and> text_pages_ratio r' = text_pages_ratio r
     \<and> avg_text_per_page r' = avg_text_per_page r
     \<and> pages_with_text r \<le> pages_with_text r'
     \<and> pages_with_text r' \<le> pages_with_text r + int (length doc)
     \<and> total_text_length r \<le> total_text_length r'
     \<and> (pages_with_text r' = pages_with_text r \<longrightarrow>
           total_text_length r' = total_text_length r \<and> has_text_layer r' = has_text_layer r)
     \<and> (pages_with_text r < pages_with_text r' \<longrightarrow> has_text_layer r')"
proof (induction doc arbitrary: r)
  case Nil
  then show ?case by simp
next
  case (Cons page doc)
  show ?case
  proof (cases page)
    case (Inl e)
    with Cons.prems show ?thesis by simp
  next
    case (Inr content)
    show ?thesis
    proof (cases "py_strip content = []")
      case True
      with Inr Cons.prems have "text_layer_loop doc r = Inr r'" by simp
      from Cons.IH [OF this] show ?thesis by auto
    next
      case False
      let ?r = "r\<lparr>has_text_layer := True,
                   pages_with_text := pages_with_text r + 1,
                   total_text_length := total_text_length r + int (length (py_strip content))\<rparr>"
      from False Inr Cons.prems have "text_layer_loop doc ?r = Inr r'" by simp
      from Cons.IH [OF this] show ?thesis by auto
    qed
  qed
qed

lemma analyze_three_page:
  "analyze_pdf_text_layer three_page_world ''docs/a.pdf'' = Inr three_page_metrics"
  by (simp add: analyze_pdf_text_layer_def three_page_world_def base_world_def py_strip_def
      py_isspace_simps py_truediv_def three_page_metrics_def)

lemma py_truediv_max1:
  "py_truediv a (max b 1) = Inr (Finite (real_of_int a / real_of_int (max b 1)))"
  by (simp add: py_truediv_def max_def)

lemma py_truediv_pos:
  "0 < b \<Longrightarrow> py_truediv a b = Inr (Finite (real_of_int a / real_of_int b))"
  by (simp add: py_truediv_def)

text \<open>
  C6. For every document, \<^verbatim>\<open>analyze_pdf_text_layer\<close> returns metrics whenever the
  document opens and every page yields its text, and the metrics it returns satisfy:
  the text page ratio lies between 0 and 1; \<open>pages_with_text \<le> total_pages\<close>;
  \<open>has_text_layer\<close> is \<open>pages_with_text > 0\<close>; \<open>avg_text_per_page\<close> is
  \<open>total_text_length / max(pages_with_text, 1)\<close>; both ratios are 0.0 when there is no
  page.
\<close>

theorem text_layer_metrics_invariants:
  "(fitz_open w pdf_path = Inr (map Inr texts) \<longrightarrow>
      (\<exists>m. analyze_pdf_text_layer w pdf_path = Inr m))
   \<and> (analyze_pdf_text_layer w pdf_path = Inr m \<longrightarrow>
        py_le (Finite 0) (text_pages_ratio m) \<and> py_le (text_pages_ratio m) (Finite 1)
        \<and> 0 \<le> pages_with_text m \<and> pages_with_text m \<le> total_pages m
        \<and> has_text_layer m = (pages_with_text m > 0)
        \<and> py_truediv (total_text_length m) (max (pages_with_text m) 1)
            = Inr (avg_text_per_page m)
        \<and> (total_pages m = 0 \<longrightarrow>
              text_pages_ratio m = Finite 0 \<and> avg_text_per_page m = Finite 0))"
proof (rule conjI)
  show "fitz_open w pdf_path = Inr (map Inr texts) \<longrightarrow>
      (\<exists>m. analyze_pdf_text_layer w pdf_path = Inr m)"
  proof
  assume op: "fitz_open w pdf_path = Inr (map Inr texts)"
  let ?init = "\<lparr>has_text_layer = False, total_pages = int (length (map Inr texts :: (exn + string) list)),
                 pages_with_text = 0, total_text_length = 0,
                 text_pages_ratio = Finite 0, avg_text_per_page = Finite 0\<rparr>"
  obtain r where r: "text_layer_loop (map Inr texts) ?init = Inr r"
    using text_layer_loop_total by blast
  from text_layer_loop_inv [OF r] have "0 \<le> pages_with_text r" by simp
  then have "max (pages_with_text r) 1 \<noteq> 0" by simp
  with op r show "\<exists>m. analyze_pdf_text_layer w pdf_path = Inr m"
    by (simp add: analyze_pdf_text_layer_def py_truediv_max1 py_truediv_pos)
  qed
next
  show "analyze_pdf_text_layer w pdf_path = Inr m \<longrightarrow>
        py_le (Finite 0) (text_pages_ratio m) \<and> py_le (text_pages_ratio m) (Finite 1)
        \<and> 0 \<le> pages_with_text m \<and> pages_with_text m \<le> total_pages m
        \<and> has_text_layer m = (pages_with_text m > 0)
        \<and> py_truediv (total_text_length m) (max (pages_with_text m) 1)
            = Inr (avg_text_per_page m)
        \<and> (total_pages m = 0 \<longrightarrow>
              text_pages_ratio m = Finite 0 \<and> avg_text_per_page m = Finite 0)"
  proof
  assume a: "analyze_pdf_text_layer w pdf_path = Inr m"
  then obtain doc where op: "fitz_open w pdf_path = Inr doc"
    by (cases "fitz_open w pdf_path") (simp_all add: analyze_pdf_text_layer_def)
  let ?init = "\<lparr>has_text_layer = False, total_pages = int (length doc),
                 pages_with_text = 0, total_text_length = 0,
                 text_pages_ratio = Finite 0, avg_text_per_page = Finite 0\<rparr>"
  from a op obtain r where r: "text_layer_loop doc ?init = Inr r"
    by (cases "text_layer_loop doc ?init") (simp_all add: analyze_pdf_text_layer_def)
  note inv = text_layer_loop_inv [OF r]
  have tp: "total_pages r = int (length doc)" using inv by simp
  have p0: "0 \<le> pages_with_text r" using inv by simp
  have pn: "pages_with_text r \<le> total_pages r" using inv by simp
  have l0: "0 \<le> total_text_length r" using inv by simp
  have ht: "has_text_layer r = (pages_with_text r > 0)"
  proof (cases "pages_with_text r = 0")
    case True
    with inv show ?thesis by simp
  next
    case False
    with p0 have "0 < pages_with_text r" by simp
    with inv show ?thesis by simp
  qed
  have z: "pages_with_text r = 0 \<Longrightarrow> total_text_length r = 0" using inv by simp
  have rr: "text_pages_ratio r = Finite 0" "avg_text_per_page r = Finite 0" using inv by simp_all
  show "py_le (Finite 0) (text_pages_ratio m) \<and> py_le (text_pages_ratio m) (Finite 1)
        \<and> 0 \<le> pages_with_text m \<and> pages_with_text m \<le> total_pages m
        \<and> has_text_layer m = (pages_with_text m > 0)
        \<and> py_truediv (total_text_length m) (max (pages_with_text m) 1)
            = Inr (avg_text_per_page m)
        \<and> (total_pages m = 0 \<longrightarrow>
              text_pages_ratio m = Finite 0 \<and> avg_text_per_page m = Finite 0)"
  proof (cases "0 < total_pages r")
    case True
    with a op r p0
    have m: "m = r\<lparr>text_pages_ratio :=
                     Finite (real_of_int (pages_with_text r) / real_of_int (total_pages r)),
                   avg_text_per_page :=
                     Finite (real_of_int (total_text_length r)
                             / real_of_int (max (pages_with_text r) 1))\<rparr>"
      by (simp add: analyze_pdf_text_layer_def py_truediv_max1 py_truediv_pos)
    have "real_of_int (pages_with_text r) / real_of_int (total_pages r) \<le> 1"
      using pn True by simp
    moreover have "0 \<le> real_of_int (pages_with_text r) / real_of_int (total_pages r)"
      using p0 True by simp
    ultimately show ?thesis
      using m p0 pn ht True by (simp add: py_truediv_max1)
  next
    case False
    with a op r have m: "m = r" by (simp add: analyze_pdf_text_layer_def)
    from False tp have "total_pages r = 0" by simp
    with pn p0 have pz: "pages_with_text r = 0" by simp
    with z have "total_text_length r = 0" by simp
    with m pz rr ht pn show ?thesis by (simp add: py_truediv_def)
  qed
qed
qed

theorem text_layer_metrics_invariants_witness:
  "analyze_pdf_text_layer three_page_world ''docs/a.pdf'' = Inr three_page_metrics
   \<and> py_le (text_pages_ratio three_page_metrics) (Finite 1)
   \<and> pages_with_text three_page_metrics \<le> total_pages three_page_metrics
   \<and> has_text_layer three_page_metrics = (pages_with_text three_page_metrics > 0)
   \<and> py_truediv (total_text_length three_page_metrics) (max (pages_with_text three_page_metrics) 1)
       = Inr (avg_text_per_page three_page_metrics)"
  using text_layer_metrics_invariants [of three_page_world "''docs/a.pdf''" "[]" three_page_metrics]
    analyze_three_page
  by blast

text \<open>
  C3, as amended. \<^verbatim>\<open>analyze_pdf_text_layer\<close> has no guard around a page: when text
  extraction throws on a page (the pages before it extracting normally), the function
  returns no metrics but raises that page's exception, in both files, and the
  orchestrator returns no result for the document. The claim as stated (the page
  counted as textless, the other pages aggregated) fails on the document of three
  pages whose second page throws.
\<close>

theorem page_failure_propagates:
  "fitz_open w pdf_path = Inr (map Inr before @ Inl e # rest) \<Longrightarrow>
     analyze_pdf_text_layer w pdf_path = Inl e
     \<and> analyze_pdf_text_layer_tqc w pdf_path = Inl e
     \<and> analyze_pdf_ocr_need w pdf_path = Inr None"
proof -
  assume op: "fitz_open w pdf_path = Inr (map Inr before @ Inl e # rest)"
  then have a: "analyze_pdf_text_layer w pdf_path = Inl e"
    by (simp add: analyze_pdf_text_layer_def text_layer_loop_fail)
  then have b: "analyze_pdf_text_layer_tqc w pdf_path = Inl e"
    by (simp add: analyze_pdf_text_layer_tqc_eq)
  from a have "\<exists>e'. analyze_pdf_ocr_need_try w pdf_path = Inl e'"
    by (cases "get_file_metrics w pdf_path") (simp_all add: analyze_pdf_ocr_need_try_def)
  then have c: "analyze_pdf_ocr_need w pdf_path = Inr None"
    by (auto simp add: analyze_pdf_ocr_need_def)
  from a b c show ?thesis by blast
qed

theorem page_failure_propagates_witness:
  "fitz_open page_fail_world ''docs/a.pdf''
     = Inr (map Inr [''abc''] @ Inl (Exception ''cannot extract text'') # [Inr ''def''])
   \<and> analyze_pdf_text_layer page_fail_world ''docs/a.pdf'' = Inl (Exception ''cannot extract text'')
   \<and> analyze_pdf_ocr_need page_fail_world ''docs/a.pdf'' = Inr None"
proof -
  have op: "fitz_open page_fail_world ''docs/a.pdf''
     = Inr (map Inr [''abc''] @ Inl (Exception ''cannot extract text'') # [Inr ''def''])"
    by (simp add: page_fail_world_def base_world_def)
  from page_failure_propagates [OF op] op show ?thesis by blast
qed

theorem page_failure_counterexample:
  "fitz_open page_fail_world ''docs/a.pdf''
     = Inr [Inr ''abc'', Inl (Exception ''cannot extract text''), Inr ''def'']
   \<and> analyze_pdf_text_layer page_fail_world ''docs/a.pdf''
     = Inl (Exception ''cannot extract text'')
   \<and> analyze_pdf_text_layer_tqc page_fail_world ''docs/a.pdf''
     = Inl (Exception ''cannot extract text'')"
  by (simp add: analyze_pdf_text_layer_def analyze_pdf_text_layer_tqc_def page_fail_world_def
      base_world_def py_strip_def py_isspace_simps)

section \<open>Visual density\<close>

lemma np_count_eq_1_2:
  "np_count_eq (NDArray [1, 2] f) v
     = (if f [0, 0] = v then 1 else 0) + (if f [0, 1] = v then 1 else 0)"
  by (simp add: np_count_eq_def upt_rec)

lemma two_page_world_fields:
  "convert_from_path two_page_world p a b c = Inr [half_dark_page, oversized_page]"
  "np_array two_page_world half_dark_page = Inr half_dark_page"
  "np_array two_page_world oversized_page = Inl (Exception ''Unable to allocate array'')"
  "cv2_cvtColor_RGB2GRAY two_page_world = rgb2gray"
  "cv2_threshold_BINARY_INV two_page_world = threshold_binary_inv"
  by (simp_all add: two_page_world_def base_world_def half_dark_page_def oversized_page_def)

lemma binarize_half_dark_page:
  "binarize two_page_world half_dark_page
     = Inr (NDArray [1, 2]
              (\<lambda>ix. if 127 < int ((item half_dark_page (ix @ [0]) + item half_dark_page (ix @ [1])
                                      + item half_dark_page (ix @ [2])) div 3)
                    then 0 else nat 255))"
  unfolding binarize_def two_page_world_fields
  by (simp add: half_dark_page_def rgb2gray_def threshold_binary_inv_def)

lemma density_half_dark_page:
  "calculate_text_density two_page_world half_dark_page = Finite (1 / 2)"
  by (simp add: calculate_text_density_def calculate_text_density_try_def binarize_half_dark_page
      np_count_eq_1_2 shape_at_def py_min_def del: One_nat_def)
    (simp add: half_dark_page_def)

lemma binarize_oversized_page:
  "binarize two_page_world oversized_page = Inl (Exception ''Unable to allocate array'')"
  by (simp add: binarize_def two_page_world_fields)

lemma density_oversized_page: "calculate_text_density two_page_world oversized_page = Finite 0"
  by (simp add: calculate_text_density_def calculate_text_density_try_def binarize_oversized_page)

lemma visual_two_page:
  "analyze_visual_text_density two_page_world ''docs/a.pdf'' 5 = Finite (1 / 4)"
  by (simp add: analyze_visual_text_density_def analyze_visual_text_density_try_def
      two_page_world_fields density_half_dark_page density_oversized_page np_mean_def)

lemma pages_have_pixels_two_page: "pages_have_pixels two_page_world ''docs/a.pdf'' 5"
  by (simp add: pages_have_pixels_def two_page_world_fields page_has_pixels_def
      binarize_half_dark_page binarize_oversized_page)

lemma unit_interval_iff:
  "(py_le (Finite 0) x \<and> py_le x (Finite 1)) = (\<exists>r. x = Finite r \<and> 0 \<le> r \<and> r \<le> 1)"
  by (cases x) auto

lemma calculate_text_density_caught:
  "calculate_text_density_try w img = Inl e \<Longrightarrow> calculate_text_density w img = Finite 0"
  by (simp add: calculate_text_density_def)

lemma binarize_failure_caught:
  "binarize w img = Inl e \<Longrightarrow> calculate_text_density w img = Finite 0"
  by (simp add: calculate_text_density_def calculate_text_density_try_def)

lemma clamp_range:
  "0 \<le> x \<Longrightarrow> \<exists>r. py_min (Finite x) (Finite 1) = Finite r \<and> 0 \<le> r \<and> r \<le> 1"
  by (simp add: py_min_def)

lemma calculate_text_density_range:
  assumes "page_has_pixels w img"
  shows "\<exists>r. calculate_text_density w img = Finite r \<and> 0 \<le> r \<and> r \<le> 1"
proof (cases "calculate_text_density_try w img")
  case (Inl e)
  then show ?thesis by (simp add: calculate_text_density_def)
next
  case (Inr d)
  then obtain binary where b: "binarize w img = Inr binary"
    by (cases "binarize w img") (simp_all add: calculate_text_density_try_def)
  from Inr b obtain rows where r: "shape_at binary 0 = Inr rows"
    by (cases "shape_at binary 0") (simp_all add: calculate_text_density_try_def)
  from Inr b r obtain cols where c: "shape_at binary 1 = Inr cols"
    by (cases "shape_at binary 1") (simp_all add: calculate_text_density_try_def)
  from r c obtain rest where sh: "shape binary = rows # cols # rest"
    by (cases "shape binary"; cases "tl (shape binary)")
      (auto simp add: shape_at_def split: if_splits)
  with assms b have pos: "0 < rows * cols" by (simp add: page_has_pixels_def)
  let ?x = "real (np_count_eq binary 255) / real (rows * cols)"
  have "0 \<le> ?x" by simp
  from clamp_range [OF this] obtain q
    where q: "py_min (Finite ?x) (Finite 1) = Finite q" "0 \<le> q" "q \<le> 1" by blast
  from b r c pos have "calculate_text_density w img = py_min (Finite ?x) (Finite 1)"
    by (simp add: calculate_text_density_def calculate_text_density_try_def)
  with q show ?thesis by simp
qed

lemma foldr_py_add_range:
  "\<forall>d\<in>set ds. \<exists>r. d = Finite r \<and> 0 \<le> r \<and> r \<le> 1 \<Longrightarrow>
     \<exists>s. foldr py_add ds (Finite 0) = Finite s \<and> 0 \<le> s \<and> s \<le> real (length ds)"
proof (induction ds)
  case Nil
  then show ?case by simp
next
  case (Cons d ds)
  then obtain s where s: "foldr py_add ds (Finite 0) = Finite s" "0 \<le> s" "s \<le> real (length ds)"
    by auto
  from Cons.prems obtain r where r: "d = Finite r" "0 \<le> r" "r \<le> 1" by auto
  from s r show ?case by simp
qed

lemma np_mean_range:
  assumes "\<forall>d\<in>set ds. \<exists>r. d = Finite r \<and> 0 \<le> r \<and> r \<le> 1" and "ds \<noteq> []"
  shows "\<exists>r. np_mean ds = Finite r \<and> 0 \<le> r \<and> r \<le> 1"
proof -
  from foldr_py_add_range [OF assms(1)] obtain s
    where s: "foldr py_add ds (Finite 0) = Finite s" "0 \<le> s" "s \<le> real (length ds)"
    by blast
  from assms(2) have "0 < real (length ds)" by simp
  with s have "0 \<le> s / real (length ds)" "s / real (length ds) \<le> 1" by simp_all
  with s assms(2) show ?thesis by (simp add: np_mean_def)
qed

lemma visual_rasterization_failure:
  "convert_from_path w pdf_path 1 (min sample_pages 10) 100 = Inl e \<Longrightarrow>
     analyze_visual_text_density w pdf_path sample_pages = Finite 0"
  by (simp add: analyze_visual_text_density_def analyze_visual_text_density_try_def)

lemma visual_no_pages:
  "convert_from_path w pdf_path 1 (min sample_pages 10) 100 = Inr [] \<Longrightarrow>
     analyze_visual_text_density w pdf_path sample_pages = Finite 0"
  by (simp add: analyze_visual_text_density_def analyze_visual_text_density_try_def)

lemma visual_mean:
  "convert_from_path w pdf_path 1 (min sample_pages 10) 100 = Inr images \<Longrightarrow> images \<noteq> [] \<Longrightarrow>
     analyze_visual_text_density w pdf_path sample_pages
       = np_mean (map (calculate_text_density w) images)"
  by (simp add: analyze_visual_text_density_def analyze_visual_text_density_try_def)

lemma visual_range:
  assumes "pages_have_pixels w pdf_path sample_pages"
  shows "\<exists>r. analyze_visual_text_density w pdf_path sample_pages = Finite r \<and> 0 \<le> r \<and> r \<le> 1"
proof (cases "convert_from_path w pdf_path 1 (min sample_pages 10) 100")
  case (Inl e)
  then show ?thesis by (simp add: visual_rasterization_failure)
next
  case (Inr images)
  show ?thesis
  proof (cases "images = []")
    case True
    with Inr show ?thesis by (simp add: visual_no_pages)
  next
    case False
    from assms Inr have "list_all (page_has_pixels w) images"
      by (simp add: pages_have_pixels_def)
    then have "\<forall>d\<in>set (map (calculate_text_density w) images).
        \<exists>r. d = Finite r \<and> 0 \<le> r \<and> r \<le> 1"
      by (auto simp add: list_all_iff calculate_text_density_range)
    from np_mean_range [OF this] False visual_mean [OF Inr False] show ?thesis by simp
  qed
qed

lemma orchestrator_returns:
  "get_file_metrics w pdf_path = Inr fm \<Longrightarrow> analyze_pdf_text_layer w pdf_path = Inr ta \<Longrightarrow>
     \<exists>r. analyze_pdf_ocr_need w pdf_path = Inr (Some r)"
  by (simp add: analyze_pdf_ocr_need_def analyze_pdf_ocr_need_try_def Let_def)

text \<open>
  C7, as amended. \<^verbatim>\<open>analyze_visual_text_density\<close> returns 0.0 when the rasterization
  raises and when no page is rasterized; otherwise it returns the arithmetic mean of
  the page densities. A failure of an image-processing step on a page is caught inside
  \<^verbatim>\<open>calculate_text_density\<close>: it makes that page's density 0.0, not the estimate.
  Every page density is clamped to at most 1.0, so for pages with pixels the estimate
  lies between 0.0 and 1.0. The estimator returns in every case, so the orchestrator
  returns a result whenever the file metrics and the text layer are read. The claim as
  stated (an estimate of 0.0 whenever an image-processing step fails) fails on two
  pages, one of density 0.5 and one whose array cannot be allocated: the estimate is
  0.25.
\<close>

theorem visual_density_estimate:
  "(convert_from_path w pdf_path 1 (min sample_pages 10) 100 = Inl e \<longrightarrow>
      analyze_visual_text_density w pdf_path sample_pages = Finite 0)
   \<and> (convert_from_path w pdf_path 1 (min sample_pages 10) 100 = Inr [] \<longrightarrow>
      analyze_visual_text_density w pdf_path sample_pages = Finite 0)
   \<and> (convert_from_path w pdf_path 1 (min sample_pages 10) 100 = Inr images \<and> images \<noteq> [] \<longrightarrow>
      analyze_visual_text_density w pdf_path sample_pages
        = np_mean (map (calculate_text_density w) images))
   \<and> (binarize w img = Inl e' \<longrightarrow> calculate_text_density w img = Finite 0)
   \<and> (calculate_text_density_try w img = Inl e' \<longrightarrow> calculate_text_density w img = Finite 0)
   \<and> (page_has_pixels w img \<longrightarrow>
        py_le (Finite 0) (calculate_text_density w img)
        \<and> py_le (calculate_text_density w img) (Finite 1))
   \<and> (pages_have_pixels w pdf_path sample_pages \<longrightarrow>
        py_le (Finite 0) (analyze_visual_text_density w pdf_path sample_pages)
        \<and> py_le (analyze_visual_text_density w pdf_path sample_pages) (Finite 1))
   \<and> (get_file_metrics w pdf_path = Inr fm \<and> analyze_pdf_text_layer w pdf_path = Inr ta \<longrightarrow>
        (\<exists>r. analyze_pdf_ocr_need w pdf_path = Inr (Some r)))"
  using visual_rasterization_failure [of w pdf_path sample_pages e]
    visual_no_pages [of w pdf_path sample_pages]
    visual_mean [of w pdf_path sample_pages images]
    binarize_failure_caught [of w img e']
    calculate_text_density_caught [of w img e']
    calculate_text_density_range [of w img]
    visual_range [of w pdf_path sample_pages]
    orchestrator_returns [of w pdf_path fm ta]
  unfolding unit_interval_iff by blast

theorem visual_density_estimate_witness:
  "convert_from_path two_page_world ''docs/a.pdf'' 1 (min 5 10) 100
     = Inr [half_dark_page, oversized_page]
   \<and> pages_have_pixels two_page_world ''docs/a.pdf'' 5
   \<and> analyze_visual_text_density two_page_world ''docs/a.pdf'' 5
       = np_mean (map (calculate_text_density two_page_world) [half_dark_page, oversized_page])
   \<and> py_le (Finite 0) (analyze_visual_text_density two_page_world ''docs/a.pdf'' 5)
   \<and> py_le (analyze_visual_text_density two_page_world ''docs/a.pdf'' 5) (Finite 1)"
proof -
  have c: "convert_from_path two_page_world ''docs/a.pdf'' 1 (min 5 10) 100
      = Inr [half_dark_page, oversized_page]"
    by (simp add: two_page_world_fields)
  have n: "[half_dark_page, oversized_page] \<noteq> []" by simp
  from visual_density_estimate
      [of two_page_world "''docs/a.pdf''" 5 _ "[half_dark_page, oversized_page]"]
    c n pages_have_pixels_two_page
  show ?thesis by blast
qed

theorem visual_density_counterexample:
  "convert_from_path two_page_world ''docs/a.pdf'' 1 (min 5 10) 100
     = Inr [half_dark_page, oversized_page]
   \<and> np_array two_page_world oversized_page = Inl (Exception ''Unable to allocate array'')
   \<and> calculate_text_density two_page_world half_dark_page = Finite (1 / 2)
   \<and> calculate_text_density two_page_world oversized_page = Finite 0
   \<and> analyze_visual_text_density two_page_world ''docs/a.pdf'' 5 = Finite (1 / 4)
   \<and> analyze_visual_text_density two_page_world ''docs/a.pdf'' 5 \<noteq> Finite 0"
  by (simp add: two_page_world_fields density_half_dark_page density_oversized_page
      visual_two_page)

section \<open>The orchestrator and the batch driver\<close>

lemma dropWhile_replicate: "\<not> P c \<Longrightarrow> dropWhile P (replicate n c) = replicate n c"
  by (cases n) simp_all

lemma py_strip_replicate: "\<not> py_isspace c \<Longrightarrow> py_strip (replicate n c) = replicate n c"
  by (simp add: py_strip_def dropWhile_replicate)

lemma text_layer_loop_replicate:
  "py_strip s = s \<Longrightarrow> s \<noteq> [] \<Longrightarrow>
     text_layer_loop (replicate n (Inr s)) r
       = Inr (if n = 0 then r
              else r\<lparr>has_text_layer := True,
                     pages_with_text := pages_with_text r + int n,
                     total_text_length := total_text_length r + int n * int (length s)\<rparr>)"
proof (induction n arbitrary: r)
  case 0
  then show ?case by simp
next
  case (Suc n)
  then show ?case by (simp add: algebra_simps)
qed

lemma scenario_A_fields:
  "fitz_open scenario_A_world p = Inr (replicate 10 (Inr (replicate 500 CHR ''a'')))"
  "os_stat_size scenario_A_world p = Inr 1048576"
  "shutil_which scenario_A_world cmd = None"
  "os_path_basename scenario_A_world = posix_basename"
  by (simp_all add: scenario_A_world_def base_world_def)

lemma analyze_scenario_A:
  "analyze_pdf_text_layer scenario_A_world ''docs/a.pdf'' = Inr scenario_A_text"
  by (simp add: analyze_pdf_text_layer_def scenario_A_fields text_layer_loop_replicate
      py_strip_replicate py_isspace_simps py_truediv_def scenario_A_text_def)

lemma metrics_scenario_A:
  "get_file_metrics scenario_A_world ''docs/a.pdf''
     = Inr \<lparr>file_size_mb = Finite 1, filename = ''a.pdf''\<rparr>"
  by (simp add: get_file_metrics_def scenario_A_fields py_truediv_def posix_basename_def)

lemma poppler_scenario_A: "\<not> truthy (setup_poppler scenario_A_world)"
  by (simp add: setup_poppler_def scenario_A_fields truthy_def)

lemma needs_ocr_at_zero_density: "needs_ocr_analysis t (Finite 0) f"
  by (simp add: needs_ocr_analysis_def rules_def)

lemma orchestrator_without_backend:
  assumes "\<not> truthy (setup_poppler w)"
    and "get_file_metrics w pdf_path = Inr fm"
    and "analyze_pdf_text_layer w pdf_path = Inr ta"
  shows "analyze_pdf_ocr_need w pdf_path =
     Inr (Some \<lparr>res_filename = filename fm, res_has_text_layer = has_text_layer ta,
                res_text_pages_ratio = text_pages_ratio ta, res_avg_text_density = Finite 0,
                res_ocr_required = True, res_file_size_mb = file_size_mb fm,
                res_total_pages = total_pages ta, res_error = None\<rparr>)"
  using assms
  by (simp add: analyze_pdf_ocr_need_def analyze_pdf_ocr_need_try_def Let_def
      needs_ocr_at_zero_density)

lemma which_none: "shutil_which w ''pdftoppm'' = None \<Longrightarrow> \<not> truthy (setup_poppler w)"
  by (simp add: setup_poppler_def truthy_def)

text \<open>
  C4. Without the rasterization backend the orchestrator sets the visual density to
  0.0, and at density 0.0 rule 3 holds for every text analysis and every file
  metrics, so the decision is \<open>ocr_required = true\<close>. Scenario A (ten pages, all with
  text, 5000 characters, 1 MB): \<open>has_text_layer\<close> is true, the ratio is 1.0, the average
  is 500, and the orchestrator's result has density 0.0 and \<open>ocr_required = true\<close>.
\<close>

theorem backend_unavailable_forces_ocr:
  "needs_ocr_analysis text_analysis (Finite 0) file_metrics
   \<and> rules text_analysis (Finite 0) file_metrics ! 2
   \<and> (shutil_which w ''pdftoppm'' = None \<longrightarrow> \<not> truthy (setup_poppler w))
   \<and> (\<not> truthy (setup_poppler w) \<and> get_file_metrics w pdf_path = Inr fm
        \<and> analyze_pdf_text_layer w pdf_path = Inr ta \<longrightarrow>
        analyze_pdf_ocr_need w pdf_path =
          Inr (Some \<lparr>res_filename = filename fm, res_has_text_layer = has_text_layer ta,
                     res_text_pages_ratio = text_pages_ratio ta,
                     res_avg_text_density = Finite 0, res_ocr_required = True,
                     res_file_size_mb = file_size_mb fm, res_total_pages = total_pages ta,
                     res_error = None\<rparr>))
   \<and> analyze_pdf_text_layer scenario_A_world ''docs/a.pdf'' = Inr scenario_A_text
   \<and> needs_ocr_analysis scenario_A_text (Finite 0) \<lparr>file_size_mb = Finite 1, filename = ''a.pdf''\<rparr>
   \<and> analyze_pdf_ocr_need scenario_A_world ''docs/a.pdf'' = Inr (Some scenario_A_result)"
proof -
  have a: "analyze_pdf_ocr_need scenario_A_world ''docs/a.pdf'' = Inr (Some scenario_A_result)"
    using orchestrator_without_backend [OF poppler_scenario_A metrics_scenario_A analyze_scenario_A]
    by (simp add: scenario_A_result_def scenario_A_text_def)
  have r: "rules text_analysis (Finite 0) file_metrics ! 2"
    by (simp add: rules_def)
  from a r needs_ocr_at_zero_density which_none [of w] analyze_scenario_A
    orchestrator_without_backend [of w pdf_path fm ta]
  show ?thesis by blast
qed

theorem backend_unavailable_forces_ocr_witness:
  "\<not> truthy (setup_poppler scenario_A_world)
   \<and> get_file_metrics scenario_A_world ''docs/a.pdf''
       = Inr \<lparr>file_size_mb = Finite 1, filename = ''a.pdf''\<rparr>
   \<and> analyze_pdf_text_layer scenario_A_world ''docs/a.pdf'' = Inr scenario_A_text
   \<and> analyze_pdf_ocr_need scenario_A_world ''docs/a.pdf'' =
          Inr (Some \<lparr>res_filename = ''a.pdf'', res_has_text_layer = True,
                     res_text_pages_ratio = Finite 1,
                     res_avg_text_density = Finite 0, res_ocr_required = True,
                     res_file_size_mb = Finite 1, res_total_pages = 10,
                     res_error = None\<rparr>)"
  using backend_unavailable_forces_ocr [of _ _ scenario_A_world "''docs/a.pdf''"
      "\<lparr>file_size_mb = Finite 1, filename = ''a.pdf''\<rparr>" scenario_A_text]
    poppler_scenario_A metrics_scenario_A
  by (simp add: scenario_A_text_def scenario_A_result_def)

lemma mixed_world_fields:
  "os_path_exists mixed_world ''docs''"
  "os_path_join mixed_world ''docs'' ''*.pdf'' = ''docs/*.pdf''"
  "glob_glob mixed_world ''docs/*.pdf'' = [''docs/ok.pdf'', ''docs/broken.pdf'']"
  "fitz_open mixed_world ''docs/ok.pdf'' = Inr [Inr ''Hello'']"
  "fitz_open mixed_world ''docs/broken.pdf'' = Inl (Exception ''cannot open file'')"
  "os_stat_size mixed_world p = Inr 2097152"
  "shutil_which mixed_world cmd = None"
  "os_path_basename mixed_world = posix_basename"
  "open_write mixed_world file = Inr ()"
  "askdirectory mixed_world = ''docs''"
  by (simp_all add: mixed_world_def base_world_def)

lemma posix_basename_examples:
  "posix_basename ''docs/ok.pdf'' = ''ok.pdf''"
  "posix_basename ''docs/broken.pdf'' = ''broken.pdf''"
  by (simp_all add: posix_basename_def)

lemma analyze_ok:
  "analyze_pdf_ocr_need mixed_world ''docs/ok.pdf'' = Inr (Some ok_result)"
  by (simp add: analyze_pdf_ocr_need_def analyze_pdf_ocr_need_try_def get_file_metrics_def
      analyze_pdf_text_layer_def mixed_world_fields posix_basename_examples py_truediv_def
      py_strip_def py_isspace_simps setup_poppler_def truthy_def needs_ocr_at_zero_density
      ok_result_def)

lemma open_failure_returns_None:
  "fitz_open w pdf_path = Inl e \<Longrightarrow> analyze_pdf_ocr_need w pdf_path = Inr None"
  by (cases "get_file_metrics w pdf_path")
    (simp_all add: analyze_pdf_ocr_need_def analyze_pdf_ocr_need_try_def analyze_pdf_text_layer_def)

lemma analyze_pdf_ocr_need_never_raises: "analyze_pdf_ocr_need w pdf_path \<noteq> Inl e"
  by (simp add: analyze_pdf_ocr_need_def)

lemma analyze_broken:
  "analyze_pdf_ocr_need mixed_world ''docs/broken.pdf'' = Inr None"
  by (simp add: open_failure_returns_None mixed_world_fields)

lemma folder_mixed: "analyze_pdf_folder mixed_world ''docs'' = Inr [ok_result]"
  by (simp add: analyze_pdf_folder_def find_pdf_files_def mixed_world_fields analyze_ok
      analyze_broken)

lemma folder_loop_no_error_rows:
  "analyze_pdf_folder_loop w pdf_files results = Inr rows \<Longrightarrow>
     list_all (\<lambda>r. res_error r = None) results \<Longrightarrow>
     list_all (\<lambda>r. res_error r = None) rows"
proof (induction pdf_files arbitrary: results)
  case Nil
  then show ?case by simp
next
  case (Cons pdf_path pdf_files)
  show ?case
  proof (cases "analyze_pdf_ocr_need_try w pdf_path")
    case (Inl e)
    with Cons.prems(1) have "analyze_pdf_folder_loop w pdf_files results = Inr rows"
      by (simp add: analyze_pdf_ocr_need_def)
    from Cons.IH [OF this Cons.prems(2)] show ?thesis .
  next
    case (Inr r)
    then have e: "res_error r = None"
      by (auto simp add: analyze_pdf_ocr_need_try_def Let_def split: sum.splits)
    from Inr Cons.prems(1) have "analyze_pdf_folder_loop w pdf_files (results @ [r]) = Inr rows"
      by (simp add: analyze_pdf_ocr_need_def)
    moreover from e Cons.prems(2) have "list_all (\<lambda>r. res_error r = None) (results @ [r])"
      by simp
    ultimately show ?thesis by (rule Cons.IH)
  qed
qed

lemma analyze_pdf_folder_no_error_rows:
  assumes "analyze_pdf_folder w folder_path = Inr rows"
  shows "list_all (\<lambda>r. res_error r = None) rows"
proof (cases "os_path_exists w folder_path \<and> find_pdf_files w folder_path \<noteq> []")
  case True
  with assms have "analyze_pdf_folder_loop w (find_pdf_files w folder_path) [] = Inr rows"
    by (simp add: analyze_pdf_folder_def Let_def)
  from folder_loop_no_error_rows [OF this] show ?thesis by simp
next
  case False
  with assms have "rows = []"
    by (auto simp add: analyze_pdf_folder_def Let_def split: if_splits)
  then show ?thesis by simp
qed

text \<open>
  C2, the code at a failing input. \<^verbatim>\<open>analyze_pdf_ocr_need\<close> catches every exception
  and returns \<^verbatim>\<open>None\<close>, which the batch loop skips (\<^verbatim>\<open>if result:\<close>), so the loop's
  own \<^verbatim>\<open>except\<close> branch, which would append the error record, is never reached (the
  two lemmas above: the orchestrator never raises, and no row of the batch carries an
  error). In the folder with \<^verbatim>\<open>ok.pdf\<close> and \<^verbatim>\<open>broken.pdf\<close>, the batch run returns the
  row of \<^verbatim>\<open>ok.pdf\<close> alone: the document that fails to open has no row.
\<close>

theorem open_failure_leaves_no_row:
  "find_pdf_files mixed_world ''docs'' = [''docs/ok.pdf'', ''docs/broken.pdf'']
   \<and> fitz_open mixed_world ''docs/broken.pdf'' = Inl (Exception ''cannot open file'')
   \<and> analyze_pdf_ocr_need mixed_world ''docs/broken.pdf'' = Inr None
   \<and> analyze_pdf_folder mixed_world ''docs'' = Inr [ok_result]
   \<and> res_filename ok_result = ''ok.pdf''"
  by (simp add: find_pdf_files_def mixed_world_fields analyze_broken folder_mixed ok_result_def)

section \<open>The CSV report\<close>

lemma result_get_fieldnames:
  "map (\<lambda>field. result_get r field (PStr [])) fieldnames
     = [PStr (res_filename r), PBool (res_has_text_layer r),
        PFloat (res_avg_text_density r), PBool (res_ocr_required r)]"
  by (simp add: fieldnames_def result_get_def)

lemma save_to_csv_written:
  "results \<noteq> [] \<Longrightarrow> open_write w file = Inr u \<Longrightarrow>
     save_to_csv w results file =
       Some \<lparr>csv_header = [''filename'', ''has_text_layer'', ''avg_text_density'', ''ocr_required''],
             csv_rows = map (\<lambda>r. [PStr (res_filename r), PBool (res_has_text_layer r),
                                   PFloat (res_avg_text_density r), PBool (res_ocr_required r)])
                          results\<rparr>"
  by (simp add: save_to_csv_def result_get_fieldnames) (simp add: fieldnames_def)

text \<open>
  C8, as amended. \<^verbatim>\<open>save_to_csv\<close> writes no file for an empty result list or when the
  file cannot be opened. Otherwise the file has the fixed header row \<^verbatim>\<open>filename\<close>,
  \<^verbatim>\<open>has_text_layer\<close>, \<^verbatim>\<open>avg_text_density\<close>, \<^verbatim>\<open>ocr_required\<close> and one row for each result
  record, in order, each row holding these four values of the record: no cell is left
  blank. \<^verbatim>\<open>main\<close> leaves the file of the batch run's results. The claim as stated fails
  on the folder with \<^verbatim>\<open>ok.pdf\<close> and \<^verbatim>\<open>broken.pdf\<close>: the error record that the batch
  loop builds for a failed document is written with all four cells filled (False, 0.0
  and True by default, none blank), and the report of the run has one row for two
  documents.
\<close>

theorem csv_report_contents:
  "save_to_csv w [] file = None
   \<and> (results \<noteq> [] \<and> open_write w file = Inl e \<longrightarrow> save_to_csv w results file = None)
   \<and> (results \<noteq> [] \<and> open_write w file = Inr u \<longrightarrow>
        save_to_csv w results file =
          Some \<lparr>csv_header = [''filename'', ''has_text_layer'', ''avg_text_density'', ''ocr_required''],
                csv_rows = map (\<lambda>r. [PStr (res_filename r), PBool (res_has_text_layer r),
                                      PFloat (res_avg_text_density r), PBool (res_ocr_required r)])
                             results\<rparr>)
   \<and> (askdirectory w \<noteq> [] \<and> analyze_pdf_folder w (askdirectory w) = Inr results \<longrightarrow>
        main w = Inr (True, save_to_csv w results ''ocr_analysis_report.csv''))"
proof -
  have a: "save_to_csv w [] file = None" by (simp add: save_to_csv_def)
  have b: "results \<noteq> [] \<and> open_write w file = Inl e \<longrightarrow> save_to_csv w results file = None"
    by (simp add: save_to_csv_def)
  have d: "askdirectory w \<noteq> [] \<and> analyze_pdf_folder w (askdirectory w) = Inr results \<longrightarrow>
        main w = Inr (True, save_to_csv w results ''ocr_analysis_report.csv'')"
    by (simp add: main_def Let_def save_to_csv_def)
  from a b d save_to_csv_written [of results w "file" u] show ?thesis by blast
qed

theorem csv_report_contents_witness:
  "askdirectory mixed_world \<noteq> []
   \<and> analyze_pdf_folder mixed_world (askdirectory mixed_world) = Inr [ok_result]
   \<and> open_write mixed_world ''ocr_analysis_report.csv'' = Inr ()
   \<and> main mixed_world =
       Inr (True,
            Some \<lparr>csv_header = [''filename'', ''has_text_layer'', ''avg_text_density'', ''ocr_required''],
                  csv_rows = [[PStr ''ok.pdf'', PBool True, PFloat (Finite 0), PBool True]]\<rparr>)"
proof -
  have f: "analyze_pdf_folder mixed_world (askdirectory mixed_world) = Inr [ok_result]"
    by (simp add: mixed_world_fields folder_mixed)
  have n: "askdirectory mixed_world \<noteq> []" by (simp add: mixed_world_fields)
  have o: "open_write mixed_world ''ocr_analysis_report.csv'' = Inr ()"
    by (simp add: mixed_world_fields)
  have ne: "[ok_result] \<noteq> []" by simp
  from csv_report_contents [of mixed_world "''ocr_analysis_report.csv''" "[ok_result]" _ "()"]
    f n o ne
  show ?thesis by (simp add: ok_result_def)
qed

theorem csv_report_counterexample:
  "error_record mixed_world ''docs/broken.pdf'' (Exception ''cannot open file'')
     = Inr broken_error_record
   \<and> save_to_csv mixed_world [broken_error_record] ''ocr_analysis_report.csv'' =
       Some \<lparr>csv_header = [''filename'', ''has_text_layer'', ''avg_text_density'', ''ocr_required''],
             csv_rows = [[PStr ''broken.pdf'', PBool False, PFloat (Finite 0), PBool True]]\<rparr>
   \<and> find_pdf_files mixed_world ''docs'' = [''docs/ok.pdf'', ''docs/broken.pdf'']
   \<and> main mixed_world =
       Inr (True,
            Some \<lparr>csv_header = [''filename'', ''has_text_layer'', ''avg_text_density'', ''ocr_required''],
                  csv_rows = [[PStr ''ok.pdf'', PBool True, PFloat (Finite 0), PBool True]]\<rparr>)
   \<and> save_to_csv mixed_world [] ''ocr_analysis_report.csv'' = None"
proof -
  have a: "error_record mixed_world ''docs/broken.pdf'' (Exception ''cannot open file'')
     = Inr broken_error_record"
    by (simp add: error_record_def mixed_world_fields py_truediv_def posix_basename_examples
        broken_error_record_def)
  have b: "save_to_csv mixed_world [broken_error_record] ''ocr_analysis_report.csv'' =
       Some \<lparr>csv_header = [''filename'', ''has_text_layer'', ''avg_text_density'', ''ocr_required''],
             csv_rows = [[PStr ''broken.pdf'', PBool False, PFloat (Finite 0), PBool True]]\<rparr>"
    by (simp add: save_to_csv_def mixed_world_fields result_get_fieldnames broken_error_record_def)
      (simp add: fieldnames_def)
  have c: "find_pdf_files mixed_world ''docs'' = [''docs/ok.pdf'', ''docs/broken.pdf'']"
    by (simp add: find_pdf_files_def mixed_world_fields)
  have d: "main mixed_world =
       Inr (True,
            Some \<lparr>csv_header = [''filename'', ''has_text_layer'', ''avg_text_density'', ''ocr_required''],
                  csv_rows = [[PStr ''ok.pdf'', PBool True, PFloat (Finite 0), PBool True]]\<rparr>)"
    by (simp add: main_def mixed_world_fields folder_mixed save_to_csv_def result_get_fieldnames
        ok_result_def)
      (simp add: fieldnames_def)
  have e: "save_to_csv mixed_world [] ''ocr_analysis_report.csv'' = None"
    by (simp add: save_to_csv_def)
  from a b c d e show ?thesis by blast
qed

end
